theory Spec2Isabelle
  imports Main "HOL-Library.Sublist" "HOL-Library.Word"
begin

unbundle bit_operations_syntax

section \<open>Errors\<close>

text \<open>
  Go error values that occur in \<^verbatim>\<open>pkg/clientaccess\<close> and \<^verbatim>\<open>pkg/cluster\<close>:
  the package variable \<^verbatim>\<open>ErrServiceUnavailable\<close>, errors built by \<^verbatim>\<open>fmt.Errorf\<close>,
  errors wrapped by \<^verbatim>\<open>errors.Wrap\<close>/\<^verbatim>\<open>errors.Wrapf\<close>, errors handed over by code
  outside the package (transport, filesystem, drivers), kept with their message, and
  a run-time panic, which ends the run like an error nobody handles.
\<close>

datatype error =
    ErrServiceUnavailable
  | Errorf string
  | Wrap error string
  | Foreign string
  | Panic string

text \<open>\<^verbatim>\<open>err.Error()\<close>: a wrapped error prints its message, a colon and the cause.\<close>

fun Error :: "error \<Rightarrow> string" where
  "Error ErrServiceUnavailable = ''service unavailable''"
| "Error (Errorf m) = m"
| "Error (Wrap e m) = m @ '': '' @ Error e"
| "Error (Foreign m) = m"
| "Error (Panic m) = m"

text \<open>\<^verbatim>\<open>errors.Is\<close>: the error itself or any error on its unwrap chain equals the target.\<close>

fun errors_Is :: "error \<Rightarrow> error \<Rightarrow> bool" where
  "errors_Is (Wrap e m) t = (Wrap e m = t \<or> errors_Is e t)"
| "errors_Is e t = (e = t)"

section \<open>String functions of the Go library used by the token parser\<close>

type_synonym bytes = "8 word list"

definition HasPrefix :: "string \<Rightarrow> string \<Rightarrow> bool" where
  "HasPrefix s p = prefix p s"

text \<open>\<^verbatim>\<open>strings.Index\<close>: the first position at which \<open>sep\<close> occurs, if any.\<close>

fun Index :: "string \<Rightarrow> string \<Rightarrow> nat option" where
  "Index [] sep = (if sep = [] then Some 0 else None)"
| "Index (c # s) sep =
     (if prefix sep (c # s) then Some 0 else map_option Suc (Index s sep))"

text \<open>
  \<^verbatim>\<open>strings.SplitN(s, sep, n)\<close> for a non-empty separator and \<open>n \<ge> 0\<close>: at most \<open>n\<close>
  pieces, cut at the leftmost occurrences of \<open>sep\<close>; the last piece is the unsplit rest.
  The source calls it with \<open>n = 2\<close> and the literal separators \<^verbatim>\<open>"::"\<close> and \<^verbatim>\<open>":"\<close> only.
\<close>

fun SplitN :: "string \<Rightarrow> string \<Rightarrow> nat \<Rightarrow> string list" where
  "SplitN s sep 0 = []"
| "SplitN s sep (Suc 0) = [s]"
| "SplitN s sep (Suc (Suc k)) =
     (case Index s sep of
        None \<Rightarrow> [s]
      | Some m \<Rightarrow> take m s # SplitN (drop (m + length sep) s) sep (Suc k))"

text \<open>\<^verbatim>\<open>hex.EncodeToString\<close>: two lower-case hexadecimal digits per byte, high nibble first.\<close>

definition hextable :: string where
  "hextable = ''0123456789abcdef''"

fun EncodeToString :: "bytes \<Rightarrow> string" where
  "EncodeToString [] = []"
| "EncodeToString (v # src) =
     hextable ! unat (drop_bit 4 v) # hextable ! unat (v AND 0x0f) # EncodeToString src"

section \<open>The join token (package clientaccess)\<close>

definition tokenPrefix :: string where
  "tokenPrefix = ''K10''"

text \<open>\<^verbatim>\<open>fmt.Sprintf(tokenFormat, a, b, c, d)\<close> with \<^verbatim>\<open>tokenFormat = "%s%s::%s:%s"\<close>.\<close>

definition Sprintf_tokenFormat :: "string \<Rightarrow> string \<Rightarrow> string \<Rightarrow> string \<Rightarrow> string" where
  "Sprintf_tokenFormat a b c d = a @ b @ ''::'' @ c @ '':'' @ d"

record Info =
  CACerts :: bytes
  BaseURL :: string
  Username :: string
  Password :: string
  caHash :: string

definition Info_zero :: Info where
  "Info_zero = \<lparr>CACerts = [], BaseURL = [], Username = [], Password = [], caHash = []\<rparr>"

text \<open>
  \<^verbatim>\<open>parseToken\<close>, statement by statement. The slice expression
  \<^verbatim>\<open>token[len(tokenPrefix):]\<close> panics on a string shorter than the prefix; \<^verbatim>\<open>parts[0]\<close> is
  always there, since \<^verbatim>\<open>SplitN\<close> with \<open>n = 2\<close> returns one or two pieces.
\<close>

definition parseToken :: "string \<Rightarrow> error + Info" where
  "parseToken token =
     (let info = Info_zero;
          token = (if \<not> HasPrefix token tokenPrefix
                   then Sprintf_tokenFormat tokenPrefix [] [] token else token)
      in if length token < length tokenPrefix
         then Inl (Panic ''slice bounds out of range'')
         else (let token = drop (length tokenPrefix) token;
                   parts = SplitN token ''::'' 2;
                   token = parts ! 0;
                   info = (if length parts > 1 then info\<lparr>caHash := parts ! 0\<rparr> else info);
                   token = (if length parts > 1 then parts ! 1 else token);
                   parts = SplitN token '':'' 2
               in if length parts \<noteq> 2 then Inl (Errorf ''invalid token format'')
                  else Inr (info\<lparr>Username := parts ! 0, Password := parts ! 1\<rparr>)))"

text \<open>\<^verbatim>\<open>ParseUsernamePassword\<close>.\<close>

definition ParseUsernamePassword :: "string \<Rightarrow> string \<times> string \<times> bool" where
  "ParseUsernamePassword token =
     (case parseToken token of
        Inl err \<Rightarrow> ([], [], False)
      | Inr info \<Rightarrow> (Username info, Password info, True))"

section \<open>The outside world\<close>

text \<open>
  Everything the two packages call but do not define is a field of the environment:
  the Go library (URL parsing, SHA-256, paths, HTTP transport, filesystem), the driver
  registry of package \<^verbatim>\<open>managed\<close>, the constants of package \<^verbatim>\<open>version\<close>, and the
  functions \<^verbatim>\<open>keyHash\<close>, \<^verbatim>\<open>storageBootstrap\<close> and \<^verbatim>\<open>bootstrap.Read\<close>, whose sources are
  not part of the files at hand. Calls with an effect take the state of the world
  \<open>'w\<close> (network peers, disk, driver state) and return the new one, so an answer may
  differ from one call to the next.
\<close>

datatype Client = DefaultClient | insecureClient | CAClient bytes

record URL =
  Scheme :: string
  Host :: string
  Path :: string

record Request =
  Method :: string
  Target :: string
  BasicAuth :: "(string \<times> string) option"

text \<open>An HTTP response; \<open>Body\<close> is what \<^verbatim>\<open>ioutil.ReadAll(resp.Body)\<close> yields.\<close>

record Response =
  StatusCode :: nat
  Status :: string
  Body :: "error + bytes"

record Driver =
  EndpointName :: string
  ident :: nat

record Config =
  DataDir :: string
  Token :: string
  JoinURL :: string
  ClusterInit :: bool
  ClusterReset :: bool
  Datastore_Endpoint :: string

record 'w env =
  Registered :: "Driver list"
  Default :: string
  Program :: string
  ProgramUpper :: string
  sha256_Sum256 :: "bytes \<Rightarrow> bytes"
  keyHash :: "string \<Rightarrow> string"
  filepath_Join :: "string \<Rightarrow> string \<Rightarrow> string"
  filepath_Dir :: "string \<Rightarrow> string"
  url_Parse :: "string \<Rightarrow> error + URL"
  url_String :: "URL \<Rightarrow> string"
  http_NewRequest :: "string \<Rightarrow> string \<Rightarrow> error + Request"
  client_Do :: "Client \<Rightarrow> Request \<Rightarrow> 'w \<Rightarrow> (error + Response) \<times> 'w"
  IsInitialized :: "Driver \<Rightarrow> Config \<Rightarrow> 'w \<Rightarrow> (error + bool) \<times> 'w"
  os_Stat :: "string \<Rightarrow> 'w \<Rightarrow> error option \<times> 'w"
  os_MkdirAll :: "string \<Rightarrow> 'w \<Rightarrow> error option \<times> 'w"
  os_Create :: "string \<Rightarrow> 'w \<Rightarrow> (error + nat) \<times> 'w"
  file_Close :: "nat \<Rightarrow> 'w \<Rightarrow> error option \<times> 'w"
  storageBootstrap :: "Config \<Rightarrow> 'w \<Rightarrow> error option \<times> 'w"
  bootstrap_Read :: "bytes \<Rightarrow> 'w \<Rightarrow> error option \<times> 'w"

text \<open>
  A run is observed through a log: every request handed to an HTTP client, every entry
  into one of the two fetch paths, every file or directory creation, every log line.
\<close>

datatype event =
    EvDo Client string
  | EvHttpBootstrap
  | EvStorageBootstrap
  | EvMkdirAll string
  | EvCreate string
  | EvWarn string
  | EvInfo string

record 'w io =
  world :: 'w
  trace :: "event list"

fun is_fetch :: "event \<Rightarrow> bool" where
  "is_fetch EvHttpBootstrap = True"
| "is_fetch EvStorageBootstrap = True"
| "is_fetch _ = False"

fun is_request :: "event \<Rightarrow> bool" where
  "is_request (EvDo _ _) = True"
| "is_request _ = False"


section \<open>Package clientaccess: fetching and checking the CA bundle\<close>

definition hashCA :: "'w env \<Rightarrow> bytes \<Rightarrow> string" where
  "hashCA env cacerts = EncodeToString (sha256_Sum256 env cacerts)"

text \<open>\<^verbatim>\<open>Info.String\<close>.\<close>

definition Info_String :: "'w env \<Rightarrow> Info \<Rightarrow> string" where
  "Info_String env info =
     Sprintf_tokenFormat tokenPrefix (hashCA env (CACerts info)) (Username info) (Password info)"

definition validateCACerts :: "'w env \<Rightarrow> bytes \<Rightarrow> string \<Rightarrow> bool \<times> string" where
  "validateCACerts env cacerts hash =
     (if length cacerts = 0 \<and> hash = [] then (True, [])
      else let newHash = hashCA env cacerts in (hash = newHash, newHash))"

definition validateCAHash :: "'w env \<Rightarrow> Info \<Rightarrow> error option" where
  "validateCAHash env info =
     (case validateCACerts env (CACerts info) (caHash info) of
        (ok, serverHash) \<Rightarrow>
          if \<not> ok
          then Some (Errorf (''token CA hash does not match the server CA hash: ''
                               @ caHash info @ '' != '' @ serverHash))
          else None)"

definition GetHTTPClient :: "bytes \<Rightarrow> Client" where
  "GetHTTPClient cacerts = (if length cacerts = 0 then DefaultClient else CAClient cacerts)"

text \<open>\<^verbatim>\<open>get\<close>: one request; 503 becomes \<^verbatim>\<open>ErrServiceUnavailable\<close>, any other non-200 an error.\<close>

definition get ::
  "'w env \<Rightarrow> string \<Rightarrow> Client \<Rightarrow> string \<Rightarrow> string \<Rightarrow> 'w io \<Rightarrow> (error + bytes) \<times> 'w io" where
  "get env u client username password io =
     (case http_NewRequest env ''GET'' u of
        Inl err \<Rightarrow> (Inl err, io)
      | Inr req \<Rightarrow>
          (let req = (if username \<noteq> [] then req\<lparr>BasicAuth := Some (username, password)\<rparr> else req)
           in case client_Do env client req (world io) of
                (r, w) \<Rightarrow>
                  (let io = io\<lparr>world := w, trace := trace io @ [EvDo client u]\<rparr>
                   in case r of
                        Inl err \<Rightarrow> (Inl err, io)
                      | Inr resp \<Rightarrow>
                          if StatusCode resp = 503 then (Inl ErrServiceUnavailable, io)
                          else if StatusCode resp \<noteq> 200
                          then (Inl (Errorf (u @ '': '' @ Status resp)), io)
                          else (Body resp, io))))"

text \<open>\<^verbatim>\<open>getCACerts\<close>: the three requests to \<^verbatim>\<open>/cacerts\<close>.\<close>

definition getCACerts :: "'w env \<Rightarrow> URL \<Rightarrow> 'w io \<Rightarrow> (error + bytes) \<times> 'w io" where
  "getCACerts env u io =
     (let u = u\<lparr>Path := ''/cacerts''\<rparr>;
          url = url_String env u
      in case get env url DefaultClient [] [] io of
           (Inr _, io) \<Rightarrow> (Inr [], io)
         | (Inl _, io) \<Rightarrow>
             (case get env url insecureClient [] [] io of
                (Inl err, io) \<Rightarrow> (Inl (Wrap err ''failed to get CA certs''), io)
              | (Inr cacerts, io) \<Rightarrow>
                  (case get env url (GetHTTPClient cacerts) [] [] io of
                     (Inl err, io) \<Rightarrow> (Inl (Wrap err ''CA cert validation failed''), io)
                   | (Inr _, io) \<Rightarrow> (Inr cacerts, io))))"

text \<open>The loop of \<^verbatim>\<open>setServer\<close> that removes trailing slashes from the path.\<close>

function trim_slashes :: "string \<Rightarrow> string" where
  "trim_slashes p = (if suffix ''/'' p then trim_slashes (take (length p - 1) p) else p)"
  by pat_completeness auto
termination
  by (relation "measure length") (auto simp: suffix_def)

definition setServer ::
  "'w env \<Rightarrow> Info \<Rightarrow> string \<Rightarrow> 'w io \<Rightarrow> error option \<times> Info \<times> 'w io" where
  "setServer env info server io =
     (case url_Parse env server of
        Inl err \<Rightarrow> (Some (Wrap err (''Invalid server url, failed to parse: '' @ server)), info, io)
      | Inr url \<Rightarrow>
          if Scheme url \<noteq> ''https''
          then (Some (Errorf (''only https:// URLs are supported, invalid scheme: '' @ server)),
                info, io)
          else (let url = url\<lparr>Path := trim_slashes (Path url)\<rparr>
                in case getCACerts env url io of
                     (Inl err, io) \<Rightarrow> (Some err, info, io)
                   | (Inr cacerts, io) \<Rightarrow>
                       (None, info\<lparr>BaseURL := url_String env url, CACerts := cacerts\<rparr>, io)))"

definition ParseAndValidateToken ::
  "'w env \<Rightarrow> string \<Rightarrow> string \<Rightarrow> 'w io \<Rightarrow> (error + Info) \<times> 'w io" where
  "ParseAndValidateToken env server token io =
     (case parseToken token of
        Inl err \<Rightarrow> (Inl err, io)
      | Inr info \<Rightarrow>
          (case setServer env info server io of
             (Some err, info, io) \<Rightarrow> (Inl err, io)
           | (None, info, io) \<Rightarrow>
               if caHash info \<noteq> []
               then (case validateCAHash env info of
                       Some err \<Rightarrow> (Inl err, io)
                     | None \<Rightarrow> (Inr info, io))
               else (Inr info, io)))"

definition ParseAndValidateTokenForUser ::
  "'w env \<Rightarrow> string \<Rightarrow> string \<Rightarrow> string \<Rightarrow> 'w io \<Rightarrow> (error + Info) \<times> 'w io" where
  "ParseAndValidateTokenForUser env server token username io =
     (case parseToken token of
        Inl err \<Rightarrow> (Inl err, io)
      | Inr info \<Rightarrow>
          (let info = info\<lparr>Username := username\<rparr>
           in case setServer env info server io of
                (Some err, info, io) \<Rightarrow> (Inl err, io)
              | (None, info, io) \<Rightarrow>
                  if caHash info \<noteq> []
                  then (case validateCAHash env info of
                          Some err \<Rightarrow> (Inl err, io)
                        | None \<Rightarrow> (Inr info, io))
                  else (Inr info, io)))"

text \<open>\<^verbatim>\<open>Get\<close>: a request to a subpath of the base URL, with the credentials of \<open>info\<close>.\<close>

definition Get :: "'w env \<Rightarrow> string \<Rightarrow> Info \<Rightarrow> 'w io \<Rightarrow> (error + bytes) \<times> 'w io" where
  "Get env path info io =
     (case url_Parse env (BaseURL info) of
        Inl err \<Rightarrow> (Inl err, io)
      | Inr u \<Rightarrow>
          get env (url_String env (u\<lparr>Path := path\<rparr>)) (GetHTTPClient (CACerts info))
            (Username info) (Password info) io)"

section \<open>Package cluster: driver selection and bootstrap\<close>

text \<open>
  The fields of \<^verbatim>\<open>Cluster\<close> that the bootstrap code reads or writes; \<open>HTTPBootstrap\<close> is
  \<^verbatim>\<open>c.runtime.HTTPBootstrap\<close>, and \<open>managedDB\<close> and \<open>clientAccessInfo\<close> may be nil.
\<close>

record Cluster =
  config :: Config
  managedDB :: "Driver option"
  HTTPBootstrap :: bool
  joining :: bool
  shouldBootstrap :: bool
  clientAccessInfo :: "Info option"

text \<open>
  The first loop of \<^verbatim>\<open>assignManagedDriver\<close>: ask each registered driver in turn whether
  it is initialized; stop at the first error and at the first driver that says yes.
\<close>

fun initialized_loop ::
  "'w env \<Rightarrow> Config \<Rightarrow> Driver list \<Rightarrow> 'w io \<Rightarrow> (error + Driver option) \<times> 'w io" where
  "initialized_loop env cfg [] io = (Inr None, io)"
| "initialized_loop env cfg (driver # rest) io =
     (case IsInitialized env driver cfg (world io) of
        (Inl err, w) \<Rightarrow> (Inl err, io\<lparr>world := w\<rparr>)
      | (Inr ok, w) \<Rightarrow>
          if ok then (Inr (Some driver), io\<lparr>world := w\<rparr>)
          else initialized_loop env cfg rest (io\<lparr>world := w\<rparr>))"

text \<open>The second and third loop: the first registered driver with the given endpoint name.\<close>

fun named_loop :: "string \<Rightarrow> Driver list \<Rightarrow> Driver option" where
  "named_loop name [] = None"
| "named_loop name (driver # rest) =
     (if name = EndpointName driver then Some driver else named_loop name rest)"

definition assignManagedDriver ::
  "'w env \<Rightarrow> Cluster \<Rightarrow> 'w io \<Rightarrow> error option \<times> Cluster \<times> 'w io" where
  "assignManagedDriver env c io =
     (case initialized_loop env (config c) (Registered env) io of
        (Inl err, io) \<Rightarrow> (Some err, c, io)
      | (Inr (Some driver), io) \<Rightarrow> (None, c\<lparr>managedDB := Some driver\<rparr>, io)
      | (Inr None, io) \<Rightarrow>
          (let endpointType = SplitN (Datastore_Endpoint (config c)) '':'' 2 ! 0
           in case named_loop endpointType (Registered env) of
                Some driver \<Rightarrow> (None, c\<lparr>managedDB := Some driver\<rparr>, io)
              | None \<Rightarrow>
                  if Datastore_Endpoint (config c) = [] \<and>
                     (ClusterInit (config c) \<or>
                      (Token (config c) \<noteq> [] \<and> JoinURL (config c) \<noteq> []))
                  then (case named_loop (Default env) (Registered env) of
                          Some driver \<Rightarrow> (None, c\<lparr>managedDB := Some driver\<rparr>, io)
                        | None \<Rightarrow> (None, c, io))
                  else (None, c, io)))"

definition bootstrapStamp :: "'w env \<Rightarrow> Cluster \<Rightarrow> string" where
  "bootstrapStamp env c =
     filepath_Join env (DataDir (config c)) (''db/joined-'' @ keyHash env (Token (config c)))"

text \<open>
  The file holds two revisions of \<^verbatim>\<open>bootstrap.go\<close>; the model follows the later one, whose
  \<^verbatim>\<open>shouldBootstrapLoad\<close> takes a context and handles \<^verbatim>\<open>ErrServiceUnavailable\<close>.

  \<open>stamp_check\<close> is the second half of \<^verbatim>\<open>shouldBootstrapLoad\<close>, from the
  \<^verbatim>\<open>os.Stat\<close> of the stamp to the end; both branches of the first half fall into it.
\<close>

definition stamp_check ::
  "'w env \<Rightarrow> Cluster \<Rightarrow> 'w io \<Rightarrow> (error + bool) \<times> Cluster \<times> 'w io" where
  "stamp_check env c io =
     (let stamp = bootstrapStamp env c
      in case os_Stat env stamp (world io) of
           (None, w) \<Rightarrow>
             (Inr False, c,
              io\<lparr>world := w, trace := trace io @ [EvInfo ''Cluster bootstrap already complete'']\<rparr>)
         | (Some _, w) \<Rightarrow>
             if managedDB c \<noteq> None \<and> Token (config c) = []
             then (Inl (Errorf (ProgramUpper env @ ''_TOKEN is required to join a cluster'')),
                   c, io\<lparr>world := w\<rparr>)
             else (Inr True, c, io\<lparr>world := w\<rparr>))"

definition shouldBootstrapLoad ::
  "'w env \<Rightarrow> Cluster \<Rightarrow> 'w io \<Rightarrow> (error + bool) \<times> Cluster \<times> 'w io" where
  "shouldBootstrapLoad env c io =
     (case managedDB c of
        Some db \<Rightarrow>
          (let c = c\<lparr>HTTPBootstrap := True\<rparr>
           in if JoinURL (config c) = [] then (Inr False, c, io)
              else (case ParseAndValidateTokenForUser env (JoinURL (config c))
                           (Token (config c)) ''server'' io of
                      (Inl err, io) \<Rightarrow>
                        if errors_Is err ErrServiceUnavailable
                        then (case IsInitialized env db (config c) (world io) of
                                (Inl err2, w) \<Rightarrow>
                                  (Inl err, c,
                                   io\<lparr>world := w, trace := trace io @
                                     [EvWarn (''Failed to check managed database initialization: ''
                                              @ Error err2)]\<rparr>)
                              | (Inr isInitialized, w) \<Rightarrow>
                                  if isInitialized
                                  then (Inr False, c,
                                        io\<lparr>world := w, trace := trace io @
                                          [EvWarn (''Ignoring bootstrap token validation error on initialized member due to cluster quorum loss: ''
                                                   @ Error err)]\<rparr>)
                                  else (Inl err, c, io\<lparr>world := w\<rparr>))
                        else (Inl err, c, io)
                    | (Inr info, io) \<Rightarrow> stamp_check env (c\<lparr>clientAccessInfo := Some info\<rparr>) io))
      | None \<Rightarrow> stamp_check env c io)"


text \<open>
  \<^verbatim>\<open>httpBootstrap\<close>; \<^verbatim>\<open>Get\<close> dereferences \<^verbatim>\<open>c.clientAccessInfo\<close>, so a nil pointer panics.
\<close>

definition httpBootstrap :: "'w env \<Rightarrow> Cluster \<Rightarrow> 'w io \<Rightarrow> error option \<times> 'w io" where
  "httpBootstrap env c io =
     (let io = io\<lparr>trace := trace io @ [EvHttpBootstrap]\<rparr>
      in case clientAccessInfo c of
           None \<Rightarrow> (Some (Panic ''invalid memory address or nil pointer dereference''), io)
         | Some info \<Rightarrow>
             (case Get env (''/v1-'' @ Program env @ ''/server-bootstrap'') info io of
                (Inl err, io) \<Rightarrow> (Some err, io)
              | (Inr content, io) \<Rightarrow>
                  (case bootstrap_Read env content (world io) of
                     (r, w) \<Rightarrow> (r, io\<lparr>world := w\<rparr>))))"

text \<open>\<^verbatim>\<open>bootstrap\<close>: the flag first, then one of the two fetch paths.\<close>

definition bootstrap :: "'w env \<Rightarrow> Cluster \<Rightarrow> 'w io \<Rightarrow> error option \<times> Cluster \<times> 'w io" where
  "bootstrap env c io =
     (let c = c\<lparr>joining := True\<rparr>
      in if HTTPBootstrap c
         then (case httpBootstrap env c io of (r, io) \<Rightarrow> (r, c, io))
         else (case storageBootstrap env (config c) (world io) of
                 (Some err, w) \<Rightarrow>
                   (Some err, c, io\<lparr>world := w, trace := trace io @ [EvStorageBootstrap]\<rparr>)
               | (None, w) \<Rightarrow>
                   (None, c, io\<lparr>world := w, trace := trace io @ [EvStorageBootstrap]\<rparr>)))"

definition Bootstrap :: "'w env \<Rightarrow> Cluster \<Rightarrow> 'w io \<Rightarrow> error option \<times> Cluster \<times> 'w io" where
  "Bootstrap env c io =
     (case assignManagedDriver env c io of
        (Some err, c, io) \<Rightarrow> (Some err, c, io)
      | (None, c, io) \<Rightarrow>
          (case shouldBootstrapLoad env c io of
             (Inl err, c, io) \<Rightarrow> (Some err, c, io)
           | (Inr run, c, io) \<Rightarrow>
               (let c = c\<lparr>shouldBootstrap := run\<rparr>
                in if run
                   then (case bootstrap env c io of
                           (Some err, c, io) \<Rightarrow> (Some err, c, io)
                         | (None, c, io) \<Rightarrow> (None, c, io))
                   else (None, c, io))))"

section \<open>The specification's wording, as definitions of its own\<close>

text \<open>
  The malformed tagged tokens, in the words of the specification: the string starts with
  the tag, and what is left after the tag and after the CA-hash segment (everything up
  to and including the first \<^verbatim>\<open>"::"\<close>, when there is one) holds no \<^verbatim>\<open>":"\<close>.
\<close>

fun after_double_colon :: "string \<Rightarrow> string option" where
  "after_double_colon (a # b # s) =
     (if a = CHR '':'' \<and> b = CHR '':'' then Some s else after_double_colon (b # s))"
| "after_double_colon _ = None"

definition malformed_tagged :: "string \<Rightarrow> bool" where
  "malformed_tagged s =
     (prefix ''K10'' s \<and>
      (let rest = drop 3 s;
           remainder = (case after_double_colon rest of None \<Rightarrow> rest | Some t \<Rightarrow> t)
       in CHR '':'' \<notin> set remainder))"



section \<open>A concrete environment\<close>

text \<open>
  A small scripted world on which the model runs: the files on disk, the answers the
  drivers will give to successive \<^verbatim>\<open>IsInitialized\<close> calls, the answers the peer will
  give to successive HTTP requests, and the outcome of a storage load. The digest is
  SHA-256 on the empty input (its 32 bytes, in decimal) and a constant elsewhere.
\<close>

record demo_world =
  files :: "string list"
  checks :: "(error + bool) list"
  replies :: "(error + Response) list"
  storage :: "error option"

definition demo_digest :: "bytes \<Rightarrow> bytes" where
  "demo_digest src =
     (if src = []
      then [227, 176, 196, 66, 152, 252, 28, 20, 154, 251, 244, 200, 153, 111,
            185, 36, 39, 174, 65, 228, 100, 155, 147, 76, 164, 149, 153, 27, 120,
            82, 184, 85]
      else replicate 32 0)"

definition etcd :: Driver where
  "etcd = \<lparr>EndpointName = ''etcd'', ident = 0\<rparr>"

definition demo_env :: "demo_world env" where
  "demo_env =
     \<lparr>Registered = [etcd],
      Default = ''etcd'',
      Program = ''k3s'',
      ProgramUpper = ''K3S'',
      sha256_Sum256 = demo_digest,
      keyHash = (\<lambda>token. take 12 (EncodeToString (demo_digest []))),
      filepath_Join = (\<lambda>dir name. dir @ ''/'' @ name),
      filepath_Dir = (\<lambda>path. rev (drop 1 (dropWhile (\<lambda>ch. ch \<noteq> CHR ''/'') (rev path)))),
      url_Parse = (\<lambda>s. if prefix ''https://'' s
                        then Inr \<lparr>Scheme = ''https'', Host = drop 8 s, Path = []\<rparr>
                        else Inr \<lparr>Scheme = [], Host = s, Path = []\<rparr>),
      url_String = (\<lambda>u. Scheme u @ ''://'' @ Host u @ Path u),
      http_NewRequest = (\<lambda>m u. Inr \<lparr>Method = m, Target = u, BasicAuth = None\<rparr>),
      client_Do = (\<lambda>client req w.
                     case replies w of
                       [] \<Rightarrow> (Inl (Foreign ''connection refused''), w)
                     | r # rs \<Rightarrow> (r, w\<lparr>replies := rs\<rparr>)),
      IsInitialized = (\<lambda>driver cfg w.
                         case checks w of
                           [] \<Rightarrow> (Inr False, w)
                         | r # rs \<Rightarrow> (r, w\<lparr>checks := rs\<rparr>)),
      os_Stat = (\<lambda>path w.
                   (if path \<in> set (files w) then None
                    else Some (Foreign ''no such file or directory''), w)),
      os_MkdirAll = (\<lambda>path w. (None, w)),
      os_Create = (\<lambda>path w. (Inr 3, w\<lparr>files := path # files w\<rparr>)),
      file_Close = (\<lambda>f w. (None, w)),
      storageBootstrap = (\<lambda>cfg w. (storage w, w)),
      bootstrap_Read = (\<lambda>content w. (None, w))\<rparr>"

definition demo_config :: Config where
  "demo_config =
     \<lparr>DataDir = ''/var/lib/k3s'', Token = ''secret'', JoinURL = ''https://peer:6443'',
      ClusterInit = False, ClusterReset = False, Datastore_Endpoint = []\<rparr>"

definition demo_cluster :: Cluster where
  "demo_cluster =
     \<lparr>config = demo_config, managedDB = None, HTTPBootstrap = False, joining = False,
      shouldBootstrap = False, clientAccessInfo = None\<rparr>"

definition demo_io :: "demo_world io" where
  "demo_io =
     \<lparr>world = \<lparr>files = [], checks = [], replies = [], storage = None\<rparr>, trace = []\<rparr>"

definition demo_stamp :: string where
  "demo_stamp = ''/var/lib/k3s/db/joined-e3b0c44298fc''"

definition ok_reply :: "bytes \<Rightarrow> error + Response" where
  "ok_reply body = Inr \<lparr>StatusCode = 200, Status = ''200 OK'', Body = Inr body\<rparr>"

definition unavailable_reply :: "error + Response" where
  "unavailable_reply =
     Inr \<lparr>StatusCode = 503, Status = ''503 Service Unavailable'', Body = Inr []\<rparr>"

text \<open>An \<^verbatim>\<open>Info\<close> whose user name holds the separator.\<close>

definition colon_user :: Info where
  "colon_user = \<lparr>CACerts = [], BaseURL = [], Username = ''a:b'', Password = ''x'', caHash = []\<rparr>"

text \<open>
  Worlds for the scenarios below. In \<open>quorum_loss_io\<close> the peer answers 503 to every
  request and the driver reports initialized state, at selection and again later; in
  \<open>check_fails_io\<close> the second \<^verbatim>\<open>IsInitialized\<close> call fails instead.
\<close>

definition quorum_loss_io :: "demo_world io" where
  "quorum_loss_io =
     \<lparr>world = \<lparr>files = [], checks = [Inr True, Inr True],
               replies = [unavailable_reply, unavailable_reply], storage = None\<rparr>,
      trace = []\<rparr>"

definition check_fails_io :: "demo_world io" where
  "check_fails_io =
     \<lparr>world = \<lparr>files = [], checks = [Inr True, Inl (Foreign ''disk read error'')],
               replies = [unavailable_reply, unavailable_reply], storage = None\<rparr>,
      trace = []\<rparr>"

text \<open>
  In \<open>stamped_io\<close> the stamp of the demo token is on disk and the peer is unreachable;
  in \<open>stamped_trusted_io\<close> the stamp is on disk and the peer's certificate is trusted
  by the system roots; in \<open>trusted_peer_io\<close> the peer is trusted and no stamp exists;
  in \<open>failing_storage_io\<close> the datastore cannot be read.
\<close>

definition stamped_io :: "demo_world io" where
  "stamped_io =
     \<lparr>world = \<lparr>files = [demo_stamp], checks = [], replies = [], storage = None\<rparr>,
      trace = []\<rparr>"

definition stamped_trusted_io :: "demo_world io" where
  "stamped_trusted_io =
     \<lparr>world = \<lparr>files = [demo_stamp], checks = [], replies = [ok_reply []], storage = None\<rparr>,
      trace = []\<rparr>"

definition trusted_peer_io :: "demo_world io" where
  "trusted_peer_io =
     \<lparr>world = \<lparr>files = [], checks = [], replies = [ok_reply []], storage = None\<rparr>,
      trace = []\<rparr>"


text \<open>
  Configurations: an external datastore and no token; cluster-init with a join URL and
  no token; a token that pins the CA hash \<^verbatim>\<open>abc123\<close>; a plain cluster-init.
\<close>

definition external_cluster :: Cluster where
  "external_cluster =
     demo_cluster\<lparr>config := demo_config\<lparr>Token := [], JoinURL := [],
                                          Datastore_Endpoint := ''mysql://db''\<rparr>\<rparr>"

definition tokenless_cluster :: Cluster where
  "tokenless_cluster = demo_cluster\<lparr>config := demo_config\<lparr>Token := [], ClusterInit := True\<rparr>\<rparr>"

definition pinned_cluster :: Cluster where
  "pinned_cluster = demo_cluster\<lparr>config := demo_config\<lparr>Token := ''K10abc123::server:pw''\<rparr>\<rparr>"

definition init_cluster :: Cluster where
  "init_cluster =
     demo_cluster\<lparr>config := demo_config\<lparr>Token := [], JoinURL := [], ClusterInit := True\<rparr>\<rparr>"


section \<open>The caller of the two entry points\<close>








section \<open>Facts about the string functions\<close>

lemma Index_char_None: "(Index s [c] = None) = (c \<notin> set s)"
  by (induction s) auto

lemma Index_char_append: "c \<notin> set u \<Longrightarrow> Index (u @ c # t) [c] = Some (length u)"
  by (induction u) auto

lemma Index_dcolon_append:
  "CHR '':'' \<notin> set h \<Longrightarrow> Index (h @ CHR '':'' # CHR '':'' # t) ''::'' = Some (length h)"
  by (induction h) auto

lemma SplitN_2:
  "SplitN s sep 2 =
     (case Index s sep of None \<Rightarrow> [s] | Some m \<Rightarrow> [take m s, drop (m + length sep) s])"
  by (simp add: numeral_2_eq_2 split: option.splits)

lemma SplitN_2_pieces: "length (SplitN s sep 2) = 1 \<or> length (SplitN s sep 2) = 2"
  by (simp add: SplitN_2 split: option.splits)

lemma after_double_colon_Index:
  "after_double_colon s = map_option (\<lambda>m. drop (m + 2) s) (Index s ''::'')"
  by (induction s rule: after_double_colon.induct) (auto simp: option.map_comp comp_def)

lemma hex_digit_in: "n < 16 \<Longrightarrow> hextable ! n \<in> set hextable"
  by (rule nth_mem) (simp add: hextable_def)

lemma hi_nibble: "unat (drop_bit 4 (v :: 8 word)) < 16"
proof -
  have "unat v < 2 ^ 8" using unsigned_less [of v] by simp
  then show ?thesis by (simp add: drop_bit_eq_div unat_div)
qed

lemma lo_nibble: "unat ((v :: 8 word) AND 0x0f) < 16"
proof -
  have "v AND 0x0f \<le> 0x0f" by (rule word_and_le1)
  then have "unat (v AND 0x0f) \<le> unat (0x0f :: 8 word)" by (simp only: word_le_nat_alt)
  then show ?thesis by simp
qed

lemma EncodeToString_hex: "set (EncodeToString src) \<subseteq> set hextable"
  by (induction src) (simp_all add: hex_digit_in hi_nibble lo_nibble)

lemma colon_notin_EncodeToString: "CHR '':'' \<notin> set (EncodeToString src)"
proof -
  have "CHR '':'' \<notin> set hextable" by (simp add: hextable_def)
  then show ?thesis using EncodeToString_hex [of src] by blast
qed

lemma parseToken_untagged:
  "\<not> HasPrefix s tokenPrefix \<Longrightarrow> parseToken s = Inr (Info_zero\<lparr>Password := s\<rparr>)"
  by (simp add: parseToken_def Sprintf_tokenFormat_def tokenPrefix_def SplitN_2 Info_zero_def)

lemma parseToken_tagged:
  "parseToken (tokenPrefix @ rest) =
     (let hash = (case Index rest ''::'' of None \<Rightarrow> [] | Some m \<Rightarrow> take m rest);
          token = (case Index rest ''::'' of None \<Rightarrow> rest | Some m \<Rightarrow> drop (m + 2) rest)
      in case Index token '':'' of
           None \<Rightarrow> Inl (Errorf ''invalid token format'')
         | Some k \<Rightarrow>
             Inr (Info_zero\<lparr>Username := take k token, Password := drop (k + 1) token,
                            caHash := hash\<rparr>))"
  by (simp add: parseToken_def HasPrefix_def tokenPrefix_def SplitN_2 Info_zero_def Let_def
           split: option.splits)

section \<open>The join-token codec\<close>

lemma parseToken_Info_String:
  assumes "CHR '':'' \<notin> set user"
  shows "parseToken (Sprintf_tokenFormat tokenPrefix (EncodeToString digest) user password) =
           Inr (Info_zero\<lparr>Username := user, Password := password,
                          caHash := EncodeToString digest\<rparr>)"
proof -
  let ?h = "EncodeToString digest"
  let ?rest = "?h @ CHR '':'' # CHR '':'' # (user @ CHR '':'' # password)"
  have split1: "Index ?rest ''::'' = Some (length ?h)"
    by (rule Index_dcolon_append) (rule colon_notin_EncodeToString)
  have split2: "Index (user @ CHR '':'' # password) '':'' = Some (length user)"
    by (rule Index_char_append) (rule assms)
  have "Sprintf_tokenFormat tokenPrefix ?h user password = tokenPrefix @ ?rest"
    by (simp add: Sprintf_tokenFormat_def)
  then show ?thesis
    by (simp only: parseToken_tagged) (simp add: split1 split2)
qed

text \<open>
  C3, as stated: for every \<^verbatim>\<open>Info\<close> with a non-empty user name and a password free of
  separators, decoding the encoded token gives back user name, password and CA hash.
  This fails for a user name that holds \<^verbatim>\<open>":"\<close>: \<^verbatim>\<open>Info{Username: "a:b", Password: "x"}\<close>
  encodes to \<^verbatim>\<open>K10<hash>::a:b:x\<close>, which decodes to user \<^verbatim>\<open>a\<close> and password \<^verbatim>\<open>b:x\<close>.
\<close>

theorem C3_roundtrip_counterexample:
  "Username colon_user \<noteq> [] \<and> CHR '':'' \<notin> set (Password colon_user) \<and>
   parseToken (Info_String demo_env colon_user) =
     Inr \<lparr>CACerts = [], BaseURL = [], Username = ''a'', Password = ''b:x'',
          caHash = ''e3b0c44298fc1c149afbf4c8996fb92427ae41e4649b934ca495991b7852b855''\<rparr> \<and>
   map_sum id Username (parseToken (Info_String demo_env colon_user)) \<noteq>
     Inr (Username colon_user)"
  by code_simp

text \<open>
  C3, amended: for every \<^verbatim>\<open>Info\<close> whose user name holds no \<^verbatim>\<open>":"\<close> (whatever the
  password and the CA bundle), decoding the encoded token succeeds and gives back the
  user name, the password and, as CA hash, the hash segment that encoding emitted.
\<close>

theorem C3_roundtrip:
  "CHR '':'' \<notin> set (Username info) \<Longrightarrow>
   parseToken (Info_String env info) =
     Inr (Info_zero\<lparr>Username := Username info, Password := Password info,
                    caHash := hashCA env (CACerts info)\<rparr>)"
  by (simp add: Info_String_def hashCA_def parseToken_Info_String)

theorem C3_roundtrip_witness:
  "CHR '':'' \<notin> set ''alice'' \<and>
   parseToken (Info_String demo_env
       \<lparr>CACerts = [], BaseURL = [], Username = ''alice'', Password = '':s3:cret'', caHash = []\<rparr>) =
     Inr \<lparr>CACerts = [], BaseURL = [], Username = ''alice'', Password = '':s3:cret'',
          caHash = hashCA demo_env []\<rparr>"
  using C3_roundtrip [of "\<lparr>CACerts = [], BaseURL = [], Username = ''alice'',
                           Password = '':s3:cret'', caHash = []\<rparr>" demo_env]
  by (simp add: Info_zero_def)

text \<open>
  C4: a string that does not start with the tag \<^verbatim>\<open>K10\<close> always decodes, to an empty CA
  hash, an empty user name and the whole string as password, colons included.
\<close>

theorem C4_untagged_opaque:
  "\<not> HasPrefix s tokenPrefix \<Longrightarrow>
   parseToken s = Inr \<lparr>CACerts = [], BaseURL = [], Username = [], Password = s, caHash = []\<rparr>"
  by (simp add: parseToken_untagged Info_zero_def)

theorem C4_untagged_opaque_witness:
  "\<not> HasPrefix ''a::b:c'' tokenPrefix \<and>
   parseToken ''a::b:c'' =
     Inr \<lparr>CACerts = [], BaseURL = [], Username = [], Password = ''a::b:c'', caHash = []\<rparr>"
proof -
  have h: "\<not> HasPrefix ''a::b:c'' tokenPrefix"
    by (simp add: HasPrefix_def tokenPrefix_def)
  show ?thesis using h C4_untagged_opaque [OF h] by simp
qed

text \<open>
  C5: decoding fails exactly on the malformed tagged tokens (tag present, no \<^verbatim>\<open>":"\<close> left
  after the tag and the CA-hash segment), always with the token-format error, and
  \<^verbatim>\<open>K10::nodelimiter\<close> is one of them.
\<close>

theorem C5_decode_error_iff:
  "isl (parseToken s) = malformed_tagged s \<and>
   (isl (parseToken s) \<longrightarrow> parseToken s = Inl (Errorf ''invalid token format'')) \<and>
   parseToken ''K10::nodelimiter'' = Inl (Errorf ''invalid token format'')"
proof (intro conjI)
  show "parseToken ''K10::nodelimiter'' = Inl (Errorf ''invalid token format'')"
    by code_simp
next
  show "isl (parseToken s) = malformed_tagged s"
  proof (cases "HasPrefix s tokenPrefix")
    case False
    then have "\<not> malformed_tagged s"
      by (simp add: malformed_tagged_def HasPrefix_def tokenPrefix_def)
    with False show ?thesis by (simp add: parseToken_untagged)
  next
    case True
    then obtain rest where s: "s = tokenPrefix @ rest"
      by (auto simp: HasPrefix_def prefix_def)
    show ?thesis
      unfolding s parseToken_tagged
      by (simp add: malformed_tagged_def tokenPrefix_def after_double_colon_Index Let_def
            Index_char_None [symmetric] split: option.splits)
  qed
next
  show "isl (parseToken s) \<longrightarrow> parseToken s = Inl (Errorf ''invalid token format'')"
  proof (cases "HasPrefix s tokenPrefix")
    case False
    then show ?thesis by (simp add: parseToken_untagged)
  next
    case True
    then obtain rest where s: "s = tokenPrefix @ rest"
      by (auto simp: HasPrefix_def prefix_def)
    show ?thesis
      unfolding s parseToken_tagged
      by (simp add: Let_def split: option.splits)
  qed
qed

theorem C5_decode_error_iff_witness:
  "isl (parseToken ''K10cafe::root'') \<and> malformed_tagged ''K10cafe::root'' \<and>
   parseToken ''K10cafe::root'' = Inl (Errorf ''invalid token format'')"
proof -
  have m: "malformed_tagged ''K10cafe::root''"
    by (simp add: malformed_tagged_def)
  show ?thesis using m C5_decode_error_iff [of "''K10cafe::root''"] by simp
qed

section \<open>What each function adds to the log\<close>

text \<open>
  The functions of package clientaccess log nothing but requests: a predicate on events
  that is false on every request sees the same log before and after.
\<close>

lemma get_frame:
  assumes "\<And>cl url. \<not> P (EvDo cl url)"
    and "get env u client username password io = (r, io')"
  shows "filter P (trace io') = filter P (trace io)"
  using assms by (auto simp: get_def Let_def split: sum.splits prod.splits if_splits)

lemma getCACerts_frame:
  assumes P: "\<And>cl url. \<not> P (EvDo cl url)"
    and run: "getCACerts env u io = (r, io')"
  shows "filter P (trace io') = filter P (trace io)"
proof -
  let ?url = "url_String env (u\<lparr>Path := ''/cacerts''\<rparr>)"
  obtain r1 io1 where g1: "get env ?url DefaultClient [] [] io = (r1, io1)"
    by (cases "get env ?url DefaultClient [] [] io")
  obtain r2 io2 where g2: "get env ?url insecureClient [] [] io1 = (r2, io2)"
    by (cases "get env ?url insecureClient [] [] io1")
  have f1: "filter P (trace io1) = filter P (trace io)"
    by (rule get_frame [where P = P, OF P g1])
  have f2: "filter P (trace io2) = filter P (trace io1)"
    by (rule get_frame [where P = P, OF P g2])
  show ?thesis
  proof (cases r1)
    case (Inr b)
    with run g1 f1 show ?thesis by (simp add: getCACerts_def Let_def)
  next
    case r1: (Inl e1)
    show ?thesis
    proof (cases r2)
      case (Inl e2)
      with run g1 g2 r1 f1 f2 show ?thesis by (simp add: getCACerts_def Let_def)
    next
      case r2: (Inr cacerts)
      obtain r3 io3 where g3: "get env ?url (GetHTTPClient cacerts) [] [] io2 = (r3, io3)"
        by (cases "get env ?url (GetHTTPClient cacerts) [] [] io2")
      have f3: "filter P (trace io3) = filter P (trace io2)"
        by (rule get_frame [where P = P, OF P g3])
      from run g1 g2 g3 r1 r2 f1 f2 f3 show ?thesis
        by (cases r3) (simp_all add: getCACerts_def Let_def)
    qed
  qed
qed

lemma setServer_frame:
  assumes P: "\<And>cl url. \<not> P (EvDo cl url)"
    and run: "setServer env info server io = (r, info', io')"
  shows "filter P (trace io') = filter P (trace io)"
proof (cases "url_Parse env server")
  case (Inl e)
  with run show ?thesis by (simp add: setServer_def)
next
  case (Inr url)
  show ?thesis
  proof (cases "Scheme url = ''https''")
    case False
    with run Inr show ?thesis by (simp add: setServer_def)
  next
    case True
    let ?u = "url\<lparr>Path := trim_slashes (Path url)\<rparr>"
    obtain rc ioc where g: "getCACerts env ?u io = (rc, ioc)"
      by (cases "getCACerts env ?u io")
    have "filter P (trace ioc) = filter P (trace io)"
      by (rule getCACerts_frame [where P = P, OF P g])
    with run Inr True g show ?thesis
      by (cases rc) (simp_all add: setServer_def Let_def)
  qed
qed

lemma ParseAndValidateTokenForUser_frame:
  assumes P: "\<And>cl url. \<not> P (EvDo cl url)"
    and run: "ParseAndValidateTokenForUser env server token username io = (r, io')"
  shows "filter P (trace io') = filter P (trace io)"
proof (cases "parseToken token")
  case (Inl e)
  with run show ?thesis by (simp add: ParseAndValidateTokenForUser_def)
next
  case (Inr info)
  let ?i = "info\<lparr>Username := username\<rparr>"
  obtain rs info' ios where s: "setServer env ?i server io = (rs, info', ios)"
    by (cases "setServer env ?i server io")
  have "filter P (trace ios) = filter P (trace io)"
    by (rule setServer_frame [where P = P, OF P s])
  with run Inr s show ?thesis
    by (auto simp: ParseAndValidateTokenForUser_def Let_def split: option.splits if_splits)
qed


text \<open>Driver selection logs nothing and changes no field but \<open>managedDB\<close>.\<close>

lemma initialized_loop_trace:
  "initialized_loop env cfg drivers io = (r, io') \<Longrightarrow> trace io' = trace io"
proof (induction drivers arbitrary: io)
  case Nil
  then show ?case by simp
next
  case (Cons driver rest)
  obtain a w where a: "IsInitialized env driver cfg (world io) = (a, w)"
    by (cases "IsInitialized env driver cfg (world io)")
  show ?case
  proof (cases a)
    case (Inl e)
    with Cons.prems a show ?thesis by auto
  next
    case (Inr ok)
    show ?thesis
    proof (cases ok)
      case True
      with Cons.prems a Inr show ?thesis by auto
    next
      case False
      with Cons.prems a Inr
      have "initialized_loop env cfg rest (io\<lparr>world := w\<rparr>) = (r, io')" by simp
      from Cons.IH [OF this] show ?thesis by simp
    qed
  qed
qed

lemma assignManagedDriver_frame:
  assumes "assignManagedDriver env c io = (r, c', io')"
  shows "trace io' = trace io \<and> config c' = config c \<and> joining c' = joining c \<and>
         HTTPBootstrap c' = HTTPBootstrap c \<and> clientAccessInfo c' = clientAccessInfo c"
proof -
  obtain a ioa where a: "initialized_loop env (config c) (Registered env) io = (a, ioa)"
    by (cases "initialized_loop env (config c) (Registered env) io")
  have "trace ioa = trace io" by (rule initialized_loop_trace [OF a])
  with assms a show ?thesis
    by (auto simp: assignManagedDriver_def Let_def split: sum.splits option.splits if_splits)
qed

lemma bootstrapStamp_config: "config c' = config c \<Longrightarrow> bootstrapStamp env c' = bootstrapStamp env c"
  by (simp add: bootstrapStamp_def)


lemma stamp_check_present:
  assumes "fst (os_Stat env (bootstrapStamp env c) (world io)) = None"
  shows "stamp_check env c io =
           (Inr False, c,
            io\<lparr>world := snd (os_Stat env (bootstrapStamp env c) (world io)),
               trace := trace io @ [EvInfo ''Cluster bootstrap already complete'']\<rparr>)"
proof -
  obtain r w where s: "os_Stat env (bootstrapStamp env c) (world io) = (r, w)"
    by (cases "os_Stat env (bootstrapStamp env c) (world io)")
  with assms have "r = None" by simp
  with s show ?thesis by (simp add: stamp_check_def Let_def)
qed






lemma setServer_keeps:
  assumes "setServer env info server io = (r, info', io')"
  shows "caHash info' = caHash info \<and> Username info' = Username info \<and>
   Password info' = Password info"
proof (cases "url_Parse env server")
  case (Inl e)
  with assms show ?thesis by (simp add: setServer_def)
next
  case (Inr url)
  show ?thesis
  proof (cases "Scheme url = ''https''")
    case False
    with assms Inr show ?thesis by (simp add: setServer_def)
  next
    case True
    obtain rc ioc where "getCACerts env (url\<lparr>Path := trim_slashes (Path url)\<rparr>) io = (rc, ioc)"
      by (cases "getCACerts env (url\<lparr>Path := trim_slashes (Path url)\<rparr>) io")
    with assms Inr True show ?thesis
      by (cases rc) (auto simp: setServer_def Let_def)
  qed
qed






section \<open>Bootstrap: the quorum-loss bypass\<close>

text \<open>
  C1: in every run of \<^verbatim>\<open>Bootstrap\<close> in which a managed driver is assigned, a join URL is
  configured, validating the token fails with an error that is \<^verbatim>\<open>ErrServiceUnavailable\<close>,
  and the assigned driver then reports itself initialized, \<^verbatim>\<open>Bootstrap\<close> returns nil and
  neither fetch path is entered.
\<close>

theorem C1_quorum_loss_bypass:
  assumes "assignManagedDriver env c io = (None, c1, io1)"
    and "managedDB c1 = Some db"
    and "JoinURL (config c1) \<noteq> []"
    and "ParseAndValidateTokenForUser env (JoinURL (config c1)) (Token (config c1))
           ''server'' io1 = (Inl err, io2)"
    and "errors_Is err ErrServiceUnavailable"
    and "IsInitialized env db (config c1) (world io2) = (Inr True, w3)"
  shows "fst (Bootstrap env c io) = None \<and>
         filter is_fetch (trace (snd (snd (Bootstrap env c io)))) = filter is_fetch (trace io)"
proof -
  have t1: "trace io1 = trace io"
    using assignManagedDriver_frame [OF assms(1)] by simp
  have t2: "filter is_fetch (trace io2) = filter is_fetch (trace io1)"
    by (rule ParseAndValidateTokenForUser_frame [where P = is_fetch, OF _ assms(4)]) simp
  have "shouldBootstrapLoad env c1 io1 =
          (Inr False, c1\<lparr>HTTPBootstrap := True\<rparr>,
           io2\<lparr>world := w3, trace := trace io2 @
             [EvWarn (''Ignoring bootstrap token validation error on initialized member due to cluster quorum loss: ''
                      @ Error err)]\<rparr>)"
    using assms(2-6) by (simp add: shouldBootstrapLoad_def)
  with assms(1) t1 t2 show ?thesis by (simp add: Bootstrap_def)
qed

theorem C1_quorum_loss_bypass_witness:
  "fst (Bootstrap demo_env demo_cluster quorum_loss_io) = None \<and>
   filter is_fetch (trace (snd (snd (Bootstrap demo_env demo_cluster quorum_loss_io)))) = []"
proof -
  let ?c1 = "demo_cluster\<lparr>managedDB := Some etcd\<rparr>"
  let ?io1 = "quorum_loss_io\<lparr>world := (world quorum_loss_io)\<lparr>checks := [Inr True]\<rparr>\<rparr>"
  let ?io2 = "\<lparr>world = \<lparr>files = [], checks = [Inr True], replies = [], storage = None\<rparr>,
               trace = [EvDo DefaultClient ''https://peer:6443/cacerts'',
                        EvDo insecureClient ''https://peer:6443/cacerts'']\<rparr>"
  let ?err = "Wrap ErrServiceUnavailable ''failed to get CA certs''"
  have h1: "assignManagedDriver demo_env demo_cluster quorum_loss_io = (None, ?c1, ?io1)"
    by code_simp
  have h2: "managedDB ?c1 = Some etcd" by simp
  have h3: "JoinURL (config ?c1) \<noteq> []" by code_simp
  have h4: "ParseAndValidateTokenForUser demo_env (JoinURL (config ?c1)) (Token (config ?c1))
              ''server'' ?io1 = (Inl ?err, ?io2)"
    by code_simp
  have h5: "errors_Is ?err ErrServiceUnavailable" by simp
  have h6: "IsInitialized demo_env etcd (config ?c1) (world ?io2) =
              (Inr True, \<lparr>files = [], checks = [], replies = [], storage = None\<rparr>)"
    by code_simp
  have "trace quorum_loss_io = []" by (simp add: quorum_loss_io_def)
  with C1_quorum_loss_bypass [OF h1 h2 h3 h4 h5 h6] show ?thesis by simp
qed

text \<open>
  C10: when validating the token fails with \<^verbatim>\<open>ErrServiceUnavailable\<close> and the assigned
  driver's initialization check itself fails, the bypass is not taken: the check's error
  goes into a warning, and \<^verbatim>\<open>shouldBootstrapLoad\<close> and \<^verbatim>\<open>Bootstrap\<close> return the error of the
  token validation; no fetch path is entered.
\<close>

theorem C10_failed_check_no_bypass:
  assumes "assignManagedDriver env c io = (None, c1, io1)"
    and "managedDB c1 = Some db"
    and "JoinURL (config c1) \<noteq> []"
    and "ParseAndValidateTokenForUser env (JoinURL (config c1)) (Token (config c1))
           ''server'' io1 = (Inl err, io2)"
    and "errors_Is err ErrServiceUnavailable"
    and "IsInitialized env db (config c1) (world io2) = (Inl err2, w3)"
  shows "shouldBootstrapLoad env c1 io1 =
           (Inl err, c1\<lparr>HTTPBootstrap := True\<rparr>,
            io2\<lparr>world := w3, trace := trace io2 @
              [EvWarn (''Failed to check managed database initialization: '' @ Error err2)]\<rparr>) \<and>
         fst (Bootstrap env c io) = Some err \<and>
         filter is_fetch (trace (snd (snd (Bootstrap env c io)))) = filter is_fetch (trace io)"
proof -
  have t1: "trace io1 = trace io"
    using assignManagedDriver_frame [OF assms(1)] by simp
  have t2: "filter is_fetch (trace io2) = filter is_fetch (trace io1)"
    by (rule ParseAndValidateTokenForUser_frame [where P = is_fetch, OF _ assms(4)]) simp
  have s: "shouldBootstrapLoad env c1 io1 =
          (Inl err, c1\<lparr>HTTPBootstrap := True\<rparr>,
           io2\<lparr>world := w3, trace := trace io2 @
             [EvWarn (''Failed to check managed database initialization: '' @ Error err2)]\<rparr>)"
    using assms(2-6) by (simp add: shouldBootstrapLoad_def)
  with assms(1) t1 t2 show ?thesis by (simp add: Bootstrap_def)
qed

theorem C10_failed_check_no_bypass_witness:
  "fst (Bootstrap demo_env demo_cluster check_fails_io) =
     Some (Wrap ErrServiceUnavailable ''failed to get CA certs'') \<and>
   filter is_fetch (trace (snd (snd (Bootstrap demo_env demo_cluster check_fails_io)))) = []"
proof -
  let ?c1 = "demo_cluster\<lparr>managedDB := Some etcd\<rparr>"
  let ?io1 = "check_fails_io\<lparr>world := (world check_fails_io)
                \<lparr>checks := [Inl (Foreign ''disk read error'')]\<rparr>\<rparr>"
  let ?io2 = "\<lparr>world = \<lparr>files = [], checks = [Inl (Foreign ''disk read error'')],
                        replies = [], storage = None\<rparr>,
               trace = [EvDo DefaultClient ''https://peer:6443/cacerts'',
                        EvDo insecureClient ''https://peer:6443/cacerts'']\<rparr>"
  let ?err = "Wrap ErrServiceUnavailable ''failed to get CA certs''"
  have h1: "assignManagedDriver demo_env demo_cluster check_fails_io = (None, ?c1, ?io1)"
    by code_simp
  have h2: "managedDB ?c1 = Some etcd" by simp
  have h3: "JoinURL (config ?c1) \<noteq> []" by code_simp
  have h4: "ParseAndValidateTokenForUser demo_env (JoinURL (config ?c1)) (Token (config ?c1))
              ''server'' ?io1 = (Inl ?err, ?io2)"
    by code_simp
  have h5: "errors_Is ?err ErrServiceUnavailable" by simp
  have h6: "IsInitialized demo_env etcd (config ?c1) (world ?io2) =
              (Inl (Foreign ''disk read error''),
               \<lparr>files = [], checks = [], replies = [], storage = None\<rparr>)"
    by code_simp
  have "trace check_fails_io = []" by (simp add: check_fails_io_def)
  with C10_failed_check_no_bypass [OF h1 h2 h3 h4 h5 h6] show ?thesis by simp
qed

section \<open>Bootstrap: the stamp\<close>

text \<open>
  C2, as stated: whenever the stamp of the raw token is on disk, \<^verbatim>\<open>Bootstrap\<close> returns nil
  and issues no request at all. This fails: with a managed driver and a join URL the
  token is validated against the peer before the stamp is looked at. Here the stamp
  exists, the peer is unreachable, and \<^verbatim>\<open>Bootstrap\<close> fails after two \<^verbatim>\<open>/cacerts\<close> requests.
\<close>

theorem C2_stamp_skips_network_counterexample:
  "fst (os_Stat demo_env (bootstrapStamp demo_env demo_cluster) (world stamped_io)) = None \<and>
   fst (Bootstrap demo_env demo_cluster stamped_io) =
     Some (Wrap (Foreign ''connection refused'') ''failed to get CA certs'') \<and>
   filter is_request (trace (snd (snd (Bootstrap demo_env demo_cluster stamped_io)))) =
     [EvDo DefaultClient ''https://peer:6443/cacerts'',
      EvDo insecureClient ''https://peer:6443/cacerts'']"
  by code_simp

text \<open>
  C2, amended: let the stamp of the raw token be on disk. If no managed driver was
  assigned, or one was assigned and no join URL is configured, \<^verbatim>\<open>Bootstrap\<close> returns nil
  and issues no request at all. If a managed driver was assigned and a join URL is set,
  the token is validated first; if that succeeds, \<^verbatim>\<open>Bootstrap\<close> returns nil, the requests
  of the validation are the only ones, and no fetch path is entered.
\<close>

theorem C2_stamp_present:
  assumes assign: "assignManagedDriver env c io = (None, c1, io1)"
  shows "(managedDB c1 = None \<and>
          fst (os_Stat env (bootstrapStamp env c) (world io1)) = None \<longrightarrow>
            fst (Bootstrap env c io) = None \<and>
            filter is_request (trace (snd (snd (Bootstrap env c io)))) =
              filter is_request (trace io) \<and>
            filter is_fetch (trace (snd (snd (Bootstrap env c io)))) =
              filter is_fetch (trace io)) \<and>
         (managedDB c1 \<noteq> None \<and> JoinURL (config c) = [] \<longrightarrow>
            fst (Bootstrap env c io) = None \<and>
            filter is_request (trace (snd (snd (Bootstrap env c io)))) =
              filter is_request (trace io) \<and>
            filter is_fetch (trace (snd (snd (Bootstrap env c io)))) =
              filter is_fetch (trace io)) \<and>
         (\<forall>info io2.
            managedDB c1 \<noteq> None \<and> JoinURL (config c) \<noteq> [] \<and>
            ParseAndValidateTokenForUser env (JoinURL (config c)) (Token (config c))
              ''server'' io1 = (Inr info, io2) \<and>
            fst (os_Stat env (bootstrapStamp env c) (world io2)) = None \<longrightarrow>
              fst (Bootstrap env c io) = None \<and>
              filter is_request (trace (snd (snd (Bootstrap env c io)))) =
                filter is_request (trace io2) \<and>
              filter is_fetch (trace (snd (snd (Bootstrap env c io)))) =
                filter is_fetch (trace io))"
proof (intro conjI allI impI)
  have fr: "trace io1 = trace io" "config c1 = config c"
    using assignManagedDriver_frame [OF assign] by simp_all
  {
    assume h: "managedDB c1 = None \<and>
               fst (os_Stat env (bootstrapStamp env c) (world io1)) = None"
    moreover have "bootstrapStamp env c1 = bootstrapStamp env c"
      using fr by (simp add: bootstrapStamp_def)
    ultimately have "fst (os_Stat env (bootstrapStamp env c1) (world io1)) = None"
      by simp
    from stamp_check_present [OF this] h
    have "shouldBootstrapLoad env c1 io1 =
            (Inr False, c1,
             io1\<lparr>world := snd (os_Stat env (bootstrapStamp env c1) (world io1)),
                 trace := trace io1 @ [EvInfo ''Cluster bootstrap already complete'']\<rparr>)"
      by (simp add: shouldBootstrapLoad_def Let_def)
    with assign fr
    have "fst (Bootstrap env c io) = None \<and>
          trace (snd (snd (Bootstrap env c io))) =
            trace io @ [EvInfo ''Cluster bootstrap already complete'']"
      by (simp add: Bootstrap_def)
  }
  note a = this
  show "fst (Bootstrap env c io) = None"
    if "managedDB c1 = None \<and> fst (os_Stat env (bootstrapStamp env c) (world io1)) = None"
    using a [OF that] by simp
  show "filter is_request (trace (snd (snd (Bootstrap env c io)))) = filter is_request (trace io)"
    if "managedDB c1 = None \<and> fst (os_Stat env (bootstrapStamp env c) (world io1)) = None"
    using a [OF that] by simp
  show "filter is_fetch (trace (snd (snd (Bootstrap env c io)))) = filter is_fetch (trace io)"
    if "managedDB c1 = None \<and> fst (os_Stat env (bootstrapStamp env c) (world io1)) = None"
    using a [OF that] by simp
  {
    assume h: "managedDB c1 \<noteq> None \<and> JoinURL (config c) = []"
    then obtain db where db: "managedDB c1 = Some db" by auto
    with h fr have "shouldBootstrapLoad env c1 io1 = (Inr False, c1\<lparr>HTTPBootstrap := True\<rparr>, io1)"
      by (simp add: shouldBootstrapLoad_def Let_def)
    with assign fr
    have "fst (Bootstrap env c io) = None \<and> trace (snd (snd (Bootstrap env c io))) = trace io"
      by (simp add: Bootstrap_def)
  }
  note founder = this
  show "fst (Bootstrap env c io) = None"
    if "managedDB c1 \<noteq> None \<and> JoinURL (config c) = []"
    using founder [OF that] by simp
  show "filter is_request (trace (snd (snd (Bootstrap env c io)))) = filter is_request (trace io)"
    if "managedDB c1 \<noteq> None \<and> JoinURL (config c) = []"
    using founder [OF that] by simp
  show "filter is_fetch (trace (snd (snd (Bootstrap env c io)))) = filter is_fetch (trace io)"
    if "managedDB c1 \<noteq> None \<and> JoinURL (config c) = []"
    using founder [OF that] by simp
  {
    fix info io2
    assume h: "managedDB c1 \<noteq> None \<and> JoinURL (config c) \<noteq> [] \<and>
               ParseAndValidateTokenForUser env (JoinURL (config c)) (Token (config c))
                 ''server'' io1 = (Inr info, io2) \<and>
               fst (os_Stat env (bootstrapStamp env c) (world io2)) = None"
    let ?c2 = "c1\<lparr>HTTPBootstrap := True, clientAccessInfo := Some info\<rparr>"
    from h obtain db where db: "managedDB c1 = Some db" by auto
    have v: "ParseAndValidateTokenForUser env (JoinURL (config c)) (Token (config c))
               ''server'' io1 = (Inr info, io2)"
      using h by simp
    have fv: "filter is_fetch (trace io2) = filter is_fetch (trace io1)"
      by (rule ParseAndValidateTokenForUser_frame [where P = is_fetch, OF _ v]) simp
    have "bootstrapStamp env ?c2 = bootstrapStamp env c"
      using fr by (simp add: bootstrapStamp_def)
    with h have "fst (os_Stat env (bootstrapStamp env ?c2) (world io2)) = None" by simp
    from stamp_check_present [OF this] db h v fr
    have "shouldBootstrapLoad env c1 io1 =
            (Inr False, ?c2,
             io2\<lparr>world := snd (os_Stat env (bootstrapStamp env ?c2) (world io2)),
                 trace := trace io2 @ [EvInfo ''Cluster bootstrap already complete'']\<rparr>)"
      by (simp add: shouldBootstrapLoad_def Let_def)
    with assign fr fv
    have "fst (Bootstrap env c io) = None \<and>
          filter is_request (trace (snd (snd (Bootstrap env c io)))) =
            filter is_request (trace io2) \<and>
          filter is_fetch (trace (snd (snd (Bootstrap env c io)))) =
            filter is_fetch (trace io)"
      by (simp add: Bootstrap_def)
  }
  note b = this
  show "fst (Bootstrap env c io) = None"
    if "managedDB c1 \<noteq> None \<and> JoinURL (config c) \<noteq> [] \<and>
        ParseAndValidateTokenForUser env (JoinURL (config c)) (Token (config c))
          ''server'' io1 = (Inr info, io2) \<and>
        fst (os_Stat env (bootstrapStamp env c) (world io2)) = None" for info io2
    using b [OF that] by simp
  show "filter is_request (trace (snd (snd (Bootstrap env c io)))) = filter is_request (trace io2)"
    if "managedDB c1 \<noteq> None \<and> JoinURL (config c) \<noteq> [] \<and>
        ParseAndValidateTokenForUser env (JoinURL (config c)) (Token (config c))
          ''server'' io1 = (Inr info, io2) \<and>
        fst (os_Stat env (bootstrapStamp env c) (world io2)) = None" for info io2
    using b [OF that] by simp
  show "filter is_fetch (trace (snd (snd (Bootstrap env c io)))) = filter is_fetch (trace io)"
    if "managedDB c1 \<noteq> None \<and> JoinURL (config c) \<noteq> [] \<and>
        ParseAndValidateTokenForUser env (JoinURL (config c)) (Token (config c))
          ''server'' io1 = (Inr info, io2) \<and>
        fst (os_Stat env (bootstrapStamp env c) (world io2)) = None" for info io2
    using b [OF that] by simp
qed

theorem C2_stamp_present_witness:
  "fst (Bootstrap demo_env init_cluster stamped_io) = None \<and>
   filter is_request (trace (snd (snd (Bootstrap demo_env init_cluster stamped_io)))) = [] \<and>
   fst (Bootstrap demo_env external_cluster stamped_io) = None \<and>
   filter is_request (trace (snd (snd (Bootstrap demo_env external_cluster stamped_io)))) = [] \<and>
   fst (Bootstrap demo_env demo_cluster stamped_trusted_io) = None \<and>
   filter is_request (trace (snd (snd (Bootstrap demo_env demo_cluster stamped_trusted_io)))) =
     [EvDo DefaultClient ''https://peer:6443/cacerts''] \<and>
   filter is_fetch (trace (snd (snd (Bootstrap demo_env demo_cluster stamped_trusted_io)))) = []"
proof -
  have a1: "assignManagedDriver demo_env external_cluster stamped_io =
              (None, external_cluster, stamped_io)"
    by code_simp
  have a2: "managedDB external_cluster = None \<and>
            fst (os_Stat demo_env (bootstrapStamp demo_env external_cluster) (world stamped_io))
              = None"
    by code_simp
  have t1: "trace stamped_io = []" by (simp add: stamped_io_def)
  let ?c1 = "demo_cluster\<lparr>managedDB := Some etcd\<rparr>"
  let ?info = "\<lparr>CACerts = [], BaseURL = ''https://peer:6443'', Username = ''server'',
                 Password = ''secret'', caHash = []\<rparr>"
  let ?io2 = "\<lparr>world = \<lparr>files = [demo_stamp], checks = [], replies = [], storage = None\<rparr>,
               trace = [EvDo DefaultClient ''https://peer:6443/cacerts'']\<rparr>"
  have b1: "assignManagedDriver demo_env demo_cluster stamped_trusted_io =
              (None, ?c1, stamped_trusted_io)"
    by code_simp
  have b2: "managedDB ?c1 \<noteq> None \<and> JoinURL (config demo_cluster) \<noteq> [] \<and>
            ParseAndValidateTokenForUser demo_env (JoinURL (config demo_cluster))
              (Token (config demo_cluster)) ''server'' stamped_trusted_io = (Inr ?info, ?io2) \<and>
            fst (os_Stat demo_env (bootstrapStamp demo_env demo_cluster) (world ?io2)) = None"
    by code_simp
  have t2: "trace stamped_trusted_io = []" by (simp add: stamped_trusted_io_def)
  have f1: "assignManagedDriver demo_env init_cluster stamped_io =
              (None, init_cluster\<lparr>managedDB := Some etcd\<rparr>, stamped_io)"
    by code_simp
  have f2: "managedDB (init_cluster\<lparr>managedDB := Some etcd\<rparr>) \<noteq> None \<and>
            JoinURL (config init_cluster) = []"
    by code_simp
  from C2_stamp_present [OF f1] f2 t1
  have founder: "fst (Bootstrap demo_env init_cluster stamped_io) = None \<and>
     filter is_request (trace (snd (snd (Bootstrap demo_env init_cluster stamped_io)))) = []"
    by simp
  from C2_stamp_present [OF a1] a2 t1
  have first: "fst (Bootstrap demo_env external_cluster stamped_io) = None \<and>
     filter is_request (trace (snd (snd (Bootstrap demo_env external_cluster stamped_io)))) = []"
    by simp
  from C2_stamp_present [OF b1] b2 t2
  have "fst (Bootstrap demo_env demo_cluster stamped_trusted_io) = None \<and>
     filter is_request (trace (snd (snd (Bootstrap demo_env demo_cluster stamped_trusted_io)))) =
       filter is_request (trace ?io2) \<and>
     filter is_fetch (trace (snd (snd (Bootstrap demo_env demo_cluster stamped_trusted_io)))) = []"
    by (metis filter.simps(1))
  with founder first show ?thesis by simp
qed

section \<open>Bootstrap: the missing token\<close>

text \<open>
  C8, as stated: when no managed driver was assigned, a datastore endpoint is configured
  and no token is, \<^verbatim>\<open>Bootstrap\<close> fails with the missing-token error. This fails: the token
  is only asked for when a managed driver is assigned. Here the endpoint is
  \<^verbatim>\<open>mysql://db\<close>, there is no token, no driver is assigned, and \<^verbatim>\<open>Bootstrap\<close> runs the
  storage load and returns nil.
\<close>

theorem C8_missing_token_counterexample:
  "managedDB (fst (snd (assignManagedDriver demo_env external_cluster demo_io))) = None \<and>
   Datastore_Endpoint (config external_cluster) = ''mysql://db'' \<and>
   Token (config external_cluster) = [] \<and>
   fst (Bootstrap demo_env external_cluster demo_io) = None \<and>
   filter is_fetch (trace (snd (snd (Bootstrap demo_env external_cluster demo_io)))) =
     [EvStorageBootstrap]"
  by code_simp

text \<open>
  C8, amended: in every run of \<^verbatim>\<open>Bootstrap\<close> in which a managed driver was assigned, a
  join URL is set, the token validation succeeded, the stamp is absent and no token is
  configured, \<^verbatim>\<open>Bootstrap\<close> fails with the missing-token error and enters no fetch path.
  When no managed driver was assigned and the stamp is absent, no token is asked for:
  \<^verbatim>\<open>shouldBootstrapLoad\<close> answers true, whatever the token and the datastore endpoint.
\<close>

theorem C8_missing_token:
  assumes assign: "assignManagedDriver env c io = (None, c1, io1)"
  shows "(\<forall>info io2 e.
            managedDB c1 \<noteq> None \<and> JoinURL (config c) \<noteq> [] \<and>
            ParseAndValidateTokenForUser env (JoinURL (config c)) (Token (config c))
              ''server'' io1 = (Inr info, io2) \<and>
            fst (os_Stat env (bootstrapStamp env c) (world io2)) = Some e \<and>
            Token (config c) = [] \<longrightarrow>
              fst (Bootstrap env c io) =
                Some (Errorf (ProgramUpper env @ ''_TOKEN is required to join a cluster'')) \<and>
              filter is_fetch (trace (snd (snd (Bootstrap env c io)))) =
                filter is_fetch (trace io)) \<and>
         (\<forall>e. managedDB c1 = None \<and>
              fst (os_Stat env (bootstrapStamp env c) (world io1)) = Some e \<longrightarrow>
                fst (shouldBootstrapLoad env c1 io1) = Inr True)"
proof (intro conjI allI impI)
  have fr: "trace io1 = trace io" "config c1 = config c"
    using assignManagedDriver_frame [OF assign] by simp_all
  {
    fix info io2 e
    assume h: "managedDB c1 \<noteq> None \<and> JoinURL (config c) \<noteq> [] \<and>
               ParseAndValidateTokenForUser env (JoinURL (config c)) (Token (config c))
                 ''server'' io1 = (Inr info, io2) \<and>
               fst (os_Stat env (bootstrapStamp env c) (world io2)) = Some e \<and>
               Token (config c) = []"
    let ?c2 = "c1\<lparr>HTTPBootstrap := True, clientAccessInfo := Some info\<rparr>"
    from h obtain db where db: "managedDB c1 = Some db" by auto
    have v: "ParseAndValidateTokenForUser env (JoinURL (config c)) (Token (config c))
               ''server'' io1 = (Inr info, io2)"
      by (rule h [THEN conjunct2, THEN conjunct2, THEN conjunct1])
    have fv: "filter is_fetch (trace io2) = filter is_fetch (trace io1)"
      by (rule ParseAndValidateTokenForUser_frame [where P = is_fetch, OF _ v]) simp
    have st: "bootstrapStamp env ?c2 = bootstrapStamp env c"
      using fr by (simp add: bootstrapStamp_def)
    obtain w where "os_Stat env (bootstrapStamp env c) (world io2) = (Some e, w)"
      using h by (cases "os_Stat env (bootstrapStamp env c) (world io2)") simp
    with st db h fr have "stamp_check env ?c2 io2 =
        (Inl (Errorf (ProgramUpper env @ ''_TOKEN is required to join a cluster'')), ?c2,
         io2\<lparr>world := w\<rparr>)"
      by (simp add: stamp_check_def Let_def)
    with db h v fr have "shouldBootstrapLoad env c1 io1 =
        (Inl (Errorf (ProgramUpper env @ ''_TOKEN is required to join a cluster'')), ?c2,
         io2\<lparr>world := w\<rparr>)"
      by (simp add: shouldBootstrapLoad_def Let_def)
    with assign fr fv
    have "fst (Bootstrap env c io) =
            Some (Errorf (ProgramUpper env @ ''_TOKEN is required to join a cluster'')) \<and>
          filter is_fetch (trace (snd (snd (Bootstrap env c io)))) = filter is_fetch (trace io)"
      by (simp add: Bootstrap_def)
  }
  note a = this
  show "fst (Bootstrap env c io) =
          Some (Errorf (ProgramUpper env @ ''_TOKEN is required to join a cluster''))"
    if "managedDB c1 \<noteq> None \<and> JoinURL (config c) \<noteq> [] \<and>
        ParseAndValidateTokenForUser env (JoinURL (config c)) (Token (config c))
          ''server'' io1 = (Inr info, io2) \<and>
        fst (os_Stat env (bootstrapStamp env c) (world io2)) = Some e \<and>
        Token (config c) = []" for info io2 e
    using a [OF that] by simp
  show "filter is_fetch (trace (snd (snd (Bootstrap env c io)))) = filter is_fetch (trace io)"
    if "managedDB c1 \<noteq> None \<and> JoinURL (config c) \<noteq> [] \<and>
        ParseAndValidateTokenForUser env (JoinURL (config c)) (Token (config c))
          ''server'' io1 = (Inr info, io2) \<and>
        fst (os_Stat env (bootstrapStamp env c) (world io2)) = Some e \<and>
        Token (config c) = []" for info io2 e
    using a [OF that] by simp
  show "fst (shouldBootstrapLoad env c1 io1) = Inr True"
    if h: "managedDB c1 = None \<and>
           fst (os_Stat env (bootstrapStamp env c) (world io1)) = Some e" for e
  proof -
    have st: "bootstrapStamp env c1 = bootstrapStamp env c"
      using fr by (simp add: bootstrapStamp_def)
    obtain w where "os_Stat env (bootstrapStamp env c) (world io1) = (Some e, w)"
      using h by (cases "os_Stat env (bootstrapStamp env c) (world io1)") simp
    with st h show ?thesis
      by (simp add: shouldBootstrapLoad_def stamp_check_def Let_def)
  qed
qed

theorem C8_missing_token_witness:
  "fst (Bootstrap demo_env tokenless_cluster trusted_peer_io) =
     Some (Errorf ''K3S_TOKEN is required to join a cluster'') \<and>
   filter is_fetch (trace (snd (snd (Bootstrap demo_env tokenless_cluster trusted_peer_io)))) = []
   \<and> fst (shouldBootstrapLoad demo_env external_cluster demo_io) = Inr True"
proof -
  let ?c1 = "tokenless_cluster\<lparr>managedDB := Some etcd\<rparr>"
  let ?info = "\<lparr>CACerts = [], BaseURL = ''https://peer:6443'', Username = ''server'',
                 Password = [], caHash = []\<rparr>"
  let ?io2 = "\<lparr>world = \<lparr>files = [], checks = [], replies = [], storage = None\<rparr>,
               trace = [EvDo DefaultClient ''https://peer:6443/cacerts'']\<rparr>"
  have a1: "assignManagedDriver demo_env tokenless_cluster trusted_peer_io =
              (None, ?c1, trusted_peer_io)"
    by code_simp
  have a2: "managedDB ?c1 \<noteq> None \<and> JoinURL (config tokenless_cluster) \<noteq> [] \<and>
            ParseAndValidateTokenForUser demo_env (JoinURL (config tokenless_cluster))
              (Token (config tokenless_cluster)) ''server'' trusted_peer_io = (Inr ?info, ?io2) \<and>
            fst (os_Stat demo_env (bootstrapStamp demo_env tokenless_cluster) (world ?io2)) =
              Some (Foreign ''no such file or directory'') \<and>
            Token (config tokenless_cluster) = []"
    by code_simp
  have a3: "ProgramUpper demo_env = ''K3S''" "trace trusted_peer_io = []"
    by (simp_all add: demo_env_def trusted_peer_io_def)
  have b1: "assignManagedDriver demo_env external_cluster demo_io =
              (None, external_cluster, demo_io)"
    by code_simp
  have b2: "managedDB external_cluster = None \<and>
            fst (os_Stat demo_env (bootstrapStamp demo_env external_cluster) (world demo_io)) =
              Some (Foreign ''no such file or directory'')"
    by code_simp
  from C8_missing_token [OF a1] a2 a3
  have "fst (Bootstrap demo_env tokenless_cluster trusted_peer_io) =
          Some (Errorf ''K3S_TOKEN is required to join a cluster'') \<and>
        filter is_fetch (trace (snd (snd (Bootstrap demo_env tokenless_cluster trusted_peer_io))))
          = []"
    by (metis append_Cons append_Nil filter.simps(1))
  moreover from C8_missing_token [OF b1] b2
  have "fst (shouldBootstrapLoad demo_env external_cluster demo_io) = Inr True"
    by blast
  ultimately show ?thesis by simp
qed

section \<open>Bootstrap: the joining flag and the stamp file\<close>




section \<open>Token validation: the CA hash\<close>

text \<open>
  C6: when the token declares a non-empty CA hash and the SHA-256 hex digest of the CA
  bundle fetched from the server differs from it, the token validation fails, and so
  does \<^verbatim>\<open>Bootstrap\<close> when it validates the token (a managed driver is assigned and a join
  URL is set); the error message holds the declared hash and the computed one.
\<close>

theorem C6_hash_mismatch:
  assumes "assignManagedDriver env c io = (None, c1, io1)"
    and "managedDB c1 = Some db"
    and "JoinURL (config c) \<noteq> []"
    and "parseToken (Token (config c)) = Inr info0"
    and "caHash info0 \<noteq> []"
    and "setServer env (info0\<lparr>Username := ''server''\<rparr>) (JoinURL (config c)) io1 =
           (None, info1, io2)"
    and "hashCA env (CACerts info1) \<noteq> caHash info0"
  shows "ParseAndValidateTokenForUser env (JoinURL (config c)) (Token (config c)) ''server'' io1 =
           (Inl (Errorf (''token CA hash does not match the server CA hash: '' @
                         caHash info0 @ '' != '' @ hashCA env (CACerts info1))), io2) \<and>
         fst (Bootstrap env c io) =
           Some (Errorf (''token CA hash does not match the server CA hash: '' @
                         caHash info0 @ '' != '' @ hashCA env (CACerts info1))) \<and>
         sublist (caHash info0)
           (''token CA hash does not match the server CA hash: '' @
            caHash info0 @ '' != '' @ hashCA env (CACerts info1)) \<and>
         sublist (hashCA env (CACerts info1))
           (''token CA hash does not match the server CA hash: '' @
            caHash info0 @ '' != '' @ hashCA env (CACerts info1))"
proof -
  let ?msg = "''token CA hash does not match the server CA hash: '' @
              caHash info0 @ '' != '' @ hashCA env (CACerts info1)"
  have cfg: "config c1 = config c"
    using assignManagedDriver_frame [OF assms(1)] by simp
  have keep: "caHash info1 = caHash info0"
    using setServer_keeps [OF assms(6)] by simp
  have "validateCACerts env (CACerts info1) (caHash info1) =
          (False, hashCA env (CACerts info1))"
    using assms(5,7) keep by (simp add: validateCACerts_def Let_def)
  then have bad: "validateCAHash env info1 = Some (Errorf ?msg)"
    using keep by (simp add: validateCAHash_def)
  have v: "ParseAndValidateTokenForUser env (JoinURL (config c)) (Token (config c))
             ''server'' io1 = (Inl (Errorf ?msg), io2)"
    using assms(4,5,6) keep bad by (simp add: ParseAndValidateTokenForUser_def Let_def)
  then have "shouldBootstrapLoad env c1 io1 = (Inl (Errorf ?msg), c1\<lparr>HTTPBootstrap := True\<rparr>, io2)"
    using assms(2,3) cfg by (simp add: shouldBootstrapLoad_def Let_def)
  with assms(1) have b: "fst (Bootstrap env c io) = Some (Errorf ?msg)"
    by (simp add: Bootstrap_def)
  have s1: "sublist (caHash info0) ?msg"
    by (rule sublist_appendI)
  have "sublist (hashCA env (CACerts info1))
          ((''token CA hash does not match the server CA hash: '' @ caHash info0 @ '' != '') @
           hashCA env (CACerts info1) @ [])"
    by (rule sublist_appendI)
  then have s2: "sublist (hashCA env (CACerts info1)) ?msg" by simp
  from v b s1 s2 show ?thesis by blast
qed

theorem C6_hash_mismatch_witness:
  "fst (Bootstrap demo_env pinned_cluster trusted_peer_io) =
     Some (Errorf (''token CA hash does not match the server CA hash: '' @ ''abc123'' @ '' != '' @
                   ''e3b0c44298fc1c149afbf4c8996fb92427ae41e4649b934ca495991b7852b855''))"
proof -
  let ?c1 = "pinned_cluster\<lparr>managedDB := Some etcd\<rparr>"
  let ?info0 = "\<lparr>CACerts = [], BaseURL = [], Username = ''server'', Password = ''pw'',
                  caHash = ''abc123''\<rparr>"
  let ?info1 = "\<lparr>CACerts = [], BaseURL = ''https://peer:6443'', Username = ''server'',
                  Password = ''pw'', caHash = ''abc123''\<rparr>"
  let ?io2 = "\<lparr>world = \<lparr>files = [], checks = [], replies = [], storage = None\<rparr>,
               trace = [EvDo DefaultClient ''https://peer:6443/cacerts'']\<rparr>"
  have h1: "assignManagedDriver demo_env pinned_cluster trusted_peer_io =
              (None, ?c1, trusted_peer_io)"
    by code_simp
  have h2: "managedDB ?c1 = Some etcd" by simp
  have h3: "JoinURL (config pinned_cluster) \<noteq> []" by code_simp
  have h4: "parseToken (Token (config pinned_cluster)) = Inr ?info0" by code_simp
  have h5: "caHash ?info0 \<noteq> []" by simp
  have h6: "setServer demo_env (?info0\<lparr>Username := ''server''\<rparr>)
              (JoinURL (config pinned_cluster)) trusted_peer_io = (None, ?info1, ?io2)"
    by code_simp
  have h7: "hashCA demo_env (CACerts ?info1) \<noteq> caHash ?info0" by code_simp
  have d: "hashCA demo_env (CACerts ?info1) =
             ''e3b0c44298fc1c149afbf4c8996fb92427ae41e4649b934ca495991b7852b855''"
    by code_simp
  from C6_hash_mismatch [OF h1 h2 h3 h4 h5 h6 h7] d show ?thesis by simp
qed

section \<open>Driver selection\<close>








end
